theory Spec2Isabelle
  imports Complex_Main "HOL-Library.Word"
begin

unbundle bit_operations_syntax

section \<open>Time\<close>

text \<open>
  An instant (Go's \<^verbatim>\<open>time.Time\<close>) and a duration (\<^verbatim>\<open>time.Duration\<close>) are integers counting
  nanoseconds; an instant counts them from the Unix epoch. The model has one clock, which
  stands for the wall clock and for the monotonic clock of Go, and no bound on instants:
  the limits of \<^verbatim>\<open>Time.Add\<close> and the saturation of \<^verbatim>\<open>Time.Sub\<close> are left out (they are reached
  only hundreds of years away from the epoch). \<^verbatim>\<open>time.Unix\<close>, which takes its seconds from a
  token, wraps around as in Go (see \<open>Unix\<close> below).
\<close>

type_synonym instant = int
type_synonym duration = int

definition Second :: duration where
  "Second = 1000000000"

definition Minute :: duration where
  "Minute = 60 * Second"

definition After :: "instant \<Rightarrow> instant \<Rightarrow> bool" where
  "After t u = (u < t)"

definition Before :: "instant \<Rightarrow> instant \<Rightarrow> bool" where
  "Before t u = (t < u)"

definition Add :: "instant \<Rightarrow> duration \<Rightarrow> instant" where
  "Add t d = t + d"

definition Sub :: "instant \<Rightarrow> instant \<Rightarrow> duration" where
  "Sub t u = t - u"

section \<open>The cache\<close>

record cacheEntry =
  JWT :: string
  Expires :: instant

text \<open>
  The field \<^verbatim>\<open>data\<close> of \<^verbatim>\<open>jwtCache\<close>: a Go map from key to entry. Every operation takes the
  lock for its whole effect on the map, so an operation is a function from the map before
  to the map after. The clock reading \<^verbatim>\<open>time.Now()\<close> of an operation is its argument \<open>now\<close>,
  the package variables \<^verbatim>\<open>clockSkew\<close> and \<^verbatim>\<open>cacheMax\<close> are arguments too.
\<close>

type_synonym cache_data = "string \<rightharpoonup> cacheEntry"

definition jwtCache_get :: "instant \<Rightarrow> string \<Rightarrow> cache_data \<Rightarrow> (string \<times> bool) \<times> cache_data" where
  "jwtCache_get now key d =
     (case d key of
        None \<Rightarrow> (('''', False), d)
      | Some ce \<Rightarrow>
          if After now (Expires ce) then (('''', False), d(key := None))
          else ((JWT ce, True), d))"

definition jwtCache_set ::
    "duration \<Rightarrow> instant \<Rightarrow> string \<Rightarrow> string \<Rightarrow> instant \<Rightarrow> cache_data \<Rightarrow> cache_data" where
  "jwtCache_set clockSkew now key jwt expires d =
     (if Before (Add now clockSkew) expires then d(key \<mapsto> \<lparr>JWT = jwt, Expires = expires\<rparr>)
      else d)"

text \<open>
  A \<^verbatim>\<open>range\<close> over a Go map yields the keys in an order the runtime chooses. Each loop over
  the map takes that choice as a function \<open>rng\<close> from the map, as it is when the loop starts,
  to the list of its keys; \<open>range_order rng D\<close> says that \<open>rng\<close> is such a choice for every map
  with keys in \<open>D\<close>: it lists every key of the map once. \<open>keys_in ks\<close> is the choice that
  follows the order of a fixed list \<open>ks\<close>.
\<close>

type_synonym range_choice = "cache_data \<Rightarrow> string list"

definition range_order :: "range_choice \<Rightarrow> string set \<Rightarrow> bool" where
  "range_order rng D = (\<forall>m. dom m \<subseteq> D \<longrightarrow> distinct (rng m) \<and> set (rng m) = dom m)"

definition keys_in :: "string list \<Rightarrow> range_choice" where
  "keys_in ks m = filter (\<lambda>k. m k \<noteq> None) ks"

fun purge_loop :: "instant \<Rightarrow> string list \<Rightarrow> cache_data \<Rightarrow> cache_data" where
  "purge_loop now [] d = d"
| "purge_loop now (k # ks) d =
     (case d k of
        None \<Rightarrow> purge_loop now ks d
      | Some v \<Rightarrow>
          if After now (Expires v) then purge_loop now ks (d(k := None))
          else purge_loop now ks d)"

definition jwtCache_purgeExpired :: "instant \<Rightarrow> range_choice \<Rightarrow> cache_data \<Rightarrow> cache_data" where
  "jwtCache_purgeExpired now rng d = purge_loop now (rng d) d"

text \<open>
  \<^verbatim>\<open>enforceCap\<close>: the slice \<^verbatim>\<open>items\<close> is filled by a first \<^verbatim>\<open>range\<close> (choice \<open>rng1\<close>); the loop
  over \<^verbatim>\<open>items\<close> drops entries that are expired or expire in less than two minutes; the
  last loop is a second \<^verbatim>\<open>range\<close> over what is left (choice \<open>rng2\<close>) and drops any entry.
  Both loops stop when \<^verbatim>\<open>dropped >= toDrop\<close>.
\<close>

definition collect_items :: "string list \<Rightarrow> cache_data \<Rightarrow> (string \<times> instant) list" where
  "collect_items ks d = List.map_filter (\<lambda>k. map_option (\<lambda>v. (k, Expires v)) (d k)) ks"

definition nearly_dead :: "instant \<Rightarrow> instant \<Rightarrow> bool" where
  "nearly_dead now expires = (\<not> After expires now \<or> Sub expires now < 2 * Minute)"

fun drop_nearly_dead ::
    "instant \<Rightarrow> int \<Rightarrow> (string \<times> instant) list \<Rightarrow> int \<Rightarrow> cache_data \<Rightarrow> int \<times> cache_data" where
  "drop_nearly_dead now toDrop [] dropped d = (dropped, d)"
| "drop_nearly_dead now toDrop (it # items) dropped d =
     (if dropped \<ge> toDrop then (dropped, d)
      else if nearly_dead now (snd it)
        then drop_nearly_dead now toDrop items (dropped + 1) (d(fst it := None))
        else drop_nearly_dead now toDrop items dropped d)"

fun drop_any :: "int \<Rightarrow> string list \<Rightarrow> int \<Rightarrow> cache_data \<Rightarrow> cache_data" where
  "drop_any toDrop [] dropped d = d"
| "drop_any toDrop (k # ks) dropped d =
     (if dropped \<ge> toDrop then d
      else drop_any toDrop ks (dropped + 1) (d(k := None)))"

definition jwtCache_enforceCap ::
    "int \<Rightarrow> instant \<Rightarrow> range_choice \<Rightarrow> range_choice \<Rightarrow> cache_data \<Rightarrow> cache_data" where
  "jwtCache_enforceCap cacheMax now rng1 rng2 d =
     (if cacheMax \<le> 0 then d
      else
        let n = int (card (dom d)) in
        if n \<le> cacheMax then d
        else
          let toDrop = n - cacheMax;
              items = collect_items (rng1 d) d;
              (dropped, d1) = drop_nearly_dead now toDrop items 0 d
          in drop_any toDrop (rng2 d1) dropped d1)"

text \<open>
  One tick of the janitor started by \<^verbatim>\<open>newJWTCache\<close>: \<^verbatim>\<open>purgeExpired\<close>, then \<^verbatim>\<open>enforceCap\<close>,
  each with its own clock reading.
\<close>

definition janitor_tick ::
    "int \<Rightarrow> instant \<Rightarrow> instant \<Rightarrow> range_choice \<Rightarrow> range_choice \<Rightarrow> range_choice \<Rightarrow>
     cache_data \<Rightarrow> cache_data" where
  "janitor_tick cacheMax now0 now1 rng0 rng1 rng2 d =
     jwtCache_enforceCap cacheMax now1 rng1 rng2 (jwtCache_purgeExpired now0 rng0 d)"

section \<open>Configuration\<close>

text \<open>
  A Go string is a list of bytes (\<^typ>\<open>char\<close>). \<^verbatim>\<open>strconv.Atoi\<close> on a 64-bit platform, as the Go
  library documents it: an optional sign, then one or more decimal digits, and a range
  error outside the 64-bit signed integers. \<open>None\<close> is a non-nil \<^verbatim>\<open>err\<close>.
\<close>

definition is_digit :: "char \<Rightarrow> bool" where
  "is_digit c = (48 \<le> (of_char c :: nat) \<and> (of_char c :: nat) \<le> 57)"

definition digit_val :: "char \<Rightarrow> int" where
  "digit_val c = of_char c - 48"

definition decimal_val :: "string \<Rightarrow> int" where
  "decimal_val ds = foldl (\<lambda>a c. 10 * a + digit_val c) 0 ds"

definition Atoi :: "string \<Rightarrow> int option" where
  "Atoi s =
     (let neg = (s \<noteq> [] \<and> hd s = CHR ''-'');
          ds = (if s \<noteq> [] \<and> (hd s = CHR ''-'' \<or> hd s = CHR ''+'') then tl s else s)
      in if ds = [] \<or> \<not> list_all is_digit ds then None
         else
           let n = decimal_val ds;
               v = (if neg then - n else n)
           in if v < - (2 ^ 63) \<or> 2 ^ 63 - 1 < v then None else Some v)"

text \<open>
  The readers of the environment take the value \<open>v\<close> that \<^verbatim>\<open>os.Getenv(name)\<close> returned
  (the empty string for a variable that is not set). The product
  \<^verbatim>\<open>time.Duration(i) * time.Second\<close> is a 64-bit signed product and wraps around.
\<close>

definition duration_mul :: "int \<Rightarrow> int \<Rightarrow> duration" where
  "duration_mul a b = sint (word_of_int (a * b) :: 64 word)"

definition durationFromEnvSeconds :: "string \<Rightarrow> int \<Rightarrow> duration" where
  "durationFromEnvSeconds v def =
     (if v = [] then duration_mul def Second
      else case Atoi v of
        None \<Rightarrow> duration_mul def Second
      | Some i \<Rightarrow> if i < 0 then duration_mul def Second else duration_mul i Second)"

definition intFromEnv :: "string \<Rightarrow> int \<Rightarrow> int" where
  "intFromEnv v def =
     (if v = [] then def
      else case Atoi v of
        None \<Rightarrow> def
      | Some i \<Rightarrow> if i < 0 then def else i)"

text \<open>The package variables \<^verbatim>\<open>clockSkew\<close> and \<^verbatim>\<open>cacheMax\<close>, from the values of their variables.\<close>

definition clockSkew_of_env :: "string \<Rightarrow> duration" where
  "clockSkew_of_env v = durationFromEnvSeconds v 30"

definition cacheMax_of_env :: "string \<Rightarrow> int" where
  "cacheMax_of_env v = intFromEnv v 10000"

section \<open>Strings\<close>

text \<open>
  \<^verbatim>\<open>strings.TrimSpace\<close> removes the leading and trailing white space that Unicode defines:
  the ASCII characters tab, line feed, vertical tab, form feed, carriage return and space,
  and, in UTF-8, U+0085, U+00A0, U+1680, U+2000 to U+200A, U+2028, U+2029, U+202F, U+205F and
  U+3000. \<open>space_width bs\<close> is the number of bytes of the white space rune that the byte
  values \<open>bs\<close> start with (0 when there is none), \<open>space_width_back\<close> the same for the rune
  they end with, given the bytes from the last one backwards.
\<close>

definition ascii_space :: "nat \<Rightarrow> bool" where
  "ascii_space a = (a = 9 \<or> a = 10 \<or> a = 11 \<or> a = 12 \<or> a = 13 \<or> a = 32)"

definition space2 :: "nat \<Rightarrow> nat \<Rightarrow> bool" where
  "space2 a b = (a = 0xC2 \<and> (b = 0x85 \<or> b = 0xA0))"

definition space3 :: "nat \<Rightarrow> nat \<Rightarrow> nat \<Rightarrow> bool" where
  "space3 a b c =
     ((a = 0xE1 \<and> b = 0x9A \<and> c = 0x80) \<or>
      (a = 0xE2 \<and> b = 0x80 \<and> ((0x80 \<le> c \<and> c \<le> 0x8A) \<or> c = 0xA8 \<or> c = 0xA9 \<or> c = 0xAF)) \<or>
      (a = 0xE2 \<and> b = 0x81 \<and> c = 0x9F) \<or>
      (a = 0xE3 \<and> b = 0x80 \<and> c = 0x80))"

fun space_width :: "nat list \<Rightarrow> nat" where
  "space_width [] = 0"
| "space_width [a] = (if ascii_space a then 1 else 0)"
| "space_width [a, b] = (if ascii_space a then 1 else if space2 a b then 2 else 0)"
| "space_width (a # b # c # bs) =
     (if ascii_space a then 1 else if space2 a b then 2 else if space3 a b c then 3 else 0)"

fun space_width_back :: "nat list \<Rightarrow> nat" where
  "space_width_back [] = 0"
| "space_width_back [c] = (if ascii_space c then 1 else 0)"
| "space_width_back [c, b] = (if ascii_space c then 1 else if space2 b c then 2 else 0)"
| "space_width_back (c # b # a # bs) =
     (if ascii_space c then 1 else if space2 b c then 2 else if space3 a b c then 3 else 0)"

fun trim_left :: "string \<Rightarrow> string" where
  "trim_left [] = []"
| "trim_left (c # cs) =
     (if space_width (map of_char (c # cs)) = 0 then c # cs
      else trim_left (drop (space_width (map of_char (c # cs)) - 1) cs))"

fun trim_back :: "string \<Rightarrow> string" where
  "trim_back [] = []"
| "trim_back (c # cs) =
     (if space_width_back (map of_char (c # cs)) = 0 then c # cs
      else trim_back (drop (space_width_back (map of_char (c # cs)) - 1) cs))"

definition TrimSpace :: "string \<Rightarrow> string" where
  "TrimSpace s = rev (trim_back (rev (trim_left s)))"

text \<open>
  \<^verbatim>\<open>countDots\<close> ranges over the runes of the string; a dot is one byte and no byte of a longer
  rune equals it, so the count is that of the bytes.
\<close>

fun countDots :: "string \<Rightarrow> int" where
  "countDots [] = 0"
| "countDots (r # s) = (if r = CHR ''.'' then countDots s + 1 else countDots s)"

text \<open>\<^verbatim>\<open>strings.Split(s, sep)\<close> for a separator of one byte.\<close>

fun Split :: "string \<Rightarrow> char \<Rightarrow> string list" where
  "Split [] sep = [[]]"
| "Split (c # cs) sep =
     (if c = sep then [] # Split cs sep
      else case Split cs sep of
        [] \<Rightarrow> [[c]]
      | p # ps \<Rightarrow> (c # p) # ps)"

text \<open>\<^verbatim>\<open>fmt.Sprintf("%d", n)\<close>.\<close>

fun decimal_digits :: "nat \<Rightarrow> string" where
  "decimal_digits n =
     (if n < 10 then [char_of (48 + n)]
      else decimal_digits (n div 10) @ [char_of (48 + n mod 10)])"

definition Itoa :: "int \<Rightarrow> string" where
  "Itoa i = (if i < 0 then CHR ''-'' # decimal_digits (nat (- i)) else decimal_digits (nat i))"

section \<open>The bearer pattern\<close>

text \<open>
  Regular expressions of Go's \<^verbatim>\<open>regexp\<close> package, as far as \<^verbatim>\<open>bearerRe\<close> needs them: a class of
  bytes, concatenation, the greedy repetitions \<^verbatim>\<open>*\<close> and \<^verbatim>\<open>+\<close>, a capturing group, and the
  anchors \<^verbatim>\<open>^\<close> and \<^verbatim>\<open>$\<close> (without the flag \<^verbatim>\<open>m\<close>: beginning and end of the text).

  A matcher state is the position in the text, the rest of the text from there, and what
  the group has captured. \<open>rmatch r st\<close> lists the states in which a match of \<open>r\<close> from \<open>st\<close>
  can end, in the order of preference of the package (leftmost-first, as in Perl: a greedy
  repetition prefers one more iteration). The package returns the first match in that
  order, from the leftmost position that has one.
\<close>

datatype re =
    Eps
  | Cls "char \<Rightarrow> bool"
  | Cat re re
  | Star re
  | Plus re
  | Cap re
  | BeginText
  | EndText

type_synonym mstate = "nat \<times> string \<times> string option"

primrec star_loop :: "(mstate \<Rightarrow> mstate list) \<Rightarrow> nat \<Rightarrow> mstate \<Rightarrow> mstate list" where
  "star_loop step 0 st = [st]"
| "star_loop step (Suc n) st =
     concat (map (\<lambda>st'. if fst st < fst st' then star_loop step n st' else []) (step st)) @ [st]"

primrec rmatch :: "re \<Rightarrow> mstate \<Rightarrow> mstate list" where
  "rmatch Eps st = [st]"
| "rmatch (Cls p) st =
     (case fst (snd st) of
        [] \<Rightarrow> []
      | c # cs \<Rightarrow> if p c then [(fst st + 1, cs, snd (snd st))] else [])"
| "rmatch (Cat r1 r2) st = concat (map (rmatch r2) (rmatch r1 st))"
| "rmatch (Star r) st = star_loop (rmatch r) (length (fst (snd st))) st"
| "rmatch (Plus r) st =
     concat (map (\<lambda>st'. star_loop (rmatch r) (length (fst (snd st'))) st') (rmatch r st))"
| "rmatch (Cap r) st =
     map (\<lambda>st'. (fst st', fst (snd st'), Some (take (fst st' - fst st) (fst (snd st)))))
       (rmatch r st)"
| "rmatch BeginText st = (if fst st = 0 then [st] else [])"
| "rmatch EndText st = (if fst (snd st) = [] then [st] else [])"

text \<open>
  \<^verbatim>\<open>(*Regexp).FindStringSubmatch\<close> for an expression with one group: the whole match and the
  text of the group, or \<^verbatim>\<open>nil\<close> (the empty list) when no position has a match.
\<close>

fun find_at :: "re \<Rightarrow> nat \<Rightarrow> string \<Rightarrow> string list" where
  "find_at r pos s =
     (case rmatch r (pos, s, None) of
        st' # _ \<Rightarrow> [take (fst st' - pos) s, case snd (snd st') of None \<Rightarrow> [] | Some g \<Rightarrow> g]
      | [] \<Rightarrow> (case s of [] \<Rightarrow> [] | _ # cs \<Rightarrow> find_at r (pos + 1) cs))"

definition FindStringSubmatch :: "re \<Rightarrow> string \<Rightarrow> string list" where
  "FindStringSubmatch r s = find_at r 0 s"

text \<open>
  The pattern \<^verbatim>\<open>(?i)^\s*Bearer\s+(.+)\s*$\<close>. Under the flag \<^verbatim>\<open>i\<close> a letter of \<^verbatim>\<open>Bearer\<close> matches
  itself in either case (none of them has a further case variant in Unicode); \<^verbatim>\<open>\s\<close> is the
  class of tab, line feed, form feed, carriage return and space; \<^verbatim>\<open>.\<close> is any character but
  the line feed. The package matches runes; each class here ends on a byte of ASCII or
  at the end of the text, so matching the bytes gives the same texts.
\<close>

definition to_lower :: "char \<Rightarrow> char" where
  "to_lower c =
     (if 65 \<le> (of_char c :: nat) \<and> (of_char c :: nat) \<le> 90 then char_of ((of_char c :: nat) + 32)
      else c)"

definition fold_lit :: "string \<Rightarrow> re" where
  "fold_lit s = foldr (\<lambda>x r. Cat (Cls (\<lambda>c. to_lower c = to_lower x)) r) s Eps"

definition re_space :: "char \<Rightarrow> bool" where
  "re_space c = (c = CHR 0x09 \<or> c = CHR 0x0A \<or> c = CHR 0x0C \<or> c = CHR 0x0D \<or> c = CHR '' '')"

definition re_dot :: "char \<Rightarrow> bool" where
  "re_dot c = (c \<noteq> CHR 0x0A)"

definition bearerRe :: re where
  "bearerRe =
     Cat BeginText (Cat (Star (Cls re_space)) (Cat (fold_lit ''Bearer'')
       (Cat (Plus (Cls re_space)) (Cat (Cap (Plus (Cls re_dot)))
         (Cat (Star (Cls re_space)) EndText)))))"

definition extractBearer :: "string \<Rightarrow> string" where
  "extractBearer h =
     (if h = [] then []
      else
        let m = FindStringSubmatch bearerRe h in
        if length m \<noteq> 2 then [] else TrimSpace (m ! 1))"

section \<open>The expiry of a token\<close>

subsection \<open>Base64\<close>

text \<open>
  \<^verbatim>\<open>base64.RawURLEncoding.DecodeString\<close>: the URL alphabet without padding. The decoder of the
  package skips carriage returns and line feeds, fails on any other byte outside the
  alphabet and on a last group of one character, and does not look at the unused bits of
  a last group of two or three characters. \<open>None\<close> is a non-nil \<^verbatim>\<open>err\<close>.
\<close>

definition b64url_index :: "char \<Rightarrow> nat option" where
  "b64url_index c =
     (let n = (of_char c :: nat) in
      if 65 \<le> n \<and> n \<le> 90 then Some (n - 65)
      else if 97 \<le> n \<and> n \<le> 122 then Some (n - 71)
      else if 48 \<le> n \<and> n \<le> 57 then Some (n + 4)
      else if c = CHR ''-'' then Some 62
      else if c = CHR ''_'' then Some 63
      else None)"

fun b64_quanta :: "nat list \<Rightarrow> nat list option" where
  "b64_quanta [] = Some []"
| "b64_quanta [a] = None"
| "b64_quanta [a, b] = Some [a * 4 + b div 16]"
| "b64_quanta [a, b, c] = Some [a * 4 + b div 16, (b mod 16) * 16 + c div 4]"
| "b64_quanta (a # b # c # d # vs) =
     map_option (\<lambda>bs. [a * 4 + b div 16, (b mod 16) * 16 + c div 4, (c mod 4) * 64 + d] @ bs)
       (b64_quanta vs)"

definition DecodeString :: "string \<Rightarrow> string option" where
  "DecodeString s =
     (case those (map b64url_index (filter (\<lambda>c. c \<noteq> CHR 0x0D \<and> c \<noteq> CHR 0x0A) s)) of
        None \<Rightarrow> None
      | Some vs \<Rightarrow> map_option (map char_of) (b64_quanta vs))"

subsection \<open>JSON\<close>

text \<open>
  The values that \<^verbatim>\<open>json.Unmarshal\<close> stores in an \<^verbatim>\<open>any\<close>: \<^verbatim>\<open>nil\<close>, \<^verbatim>\<open>bool\<close>, \<^verbatim>\<open>float64\<close>, \<^verbatim>\<open>string\<close>,
  \<^verbatim>\<open>[]any\<close> and \<^verbatim>\<open>map[string]any\<close>; \<^verbatim>\<open>json.Number\<close> is the string type that a decoder set to
  \<^verbatim>\<open>UseNumber\<close> would store for a number (\<^verbatim>\<open>Unmarshal\<close> is not). A \<^verbatim>\<open>float64\<close> is the rational
  number that it is; the members of an object are the pairs in the order of the text, a
  later pair with the same key standing for the value of the key.
\<close>

datatype any =
    AnyNil
  | AnyBool bool
  | AnyFloat64 rat
  | AnyString string
  | AnySlice "any list"
  | AnyMap "(string \<times> any) list"
  | AnyNumber string

text \<open>
  \<^verbatim>\<open>strconv.ParseFloat(s, 64)\<close> of a JSON number: the nearest \<^verbatim>\<open>float64\<close>, ties to the even
  significand, and a range error (\<open>None\<close>) when that is beyond the largest one.
\<close>

fun bitlen :: "int \<Rightarrow> int" where
  "bitlen n = (if n \<le> 0 then 0 else 1 + bitlen (n div 2))"

definition pow2 :: "int \<Rightarrow> rat" where
  "pow2 e = (if 0 \<le> e then 2 ^ nat e else 1 / 2 ^ nat (- e))"

definition pow10 :: "int \<Rightarrow> rat" where
  "pow10 e = (if 0 \<le> e then 10 ^ nat e else 1 / 10 ^ nat (- e))"

definition floor_log2 :: "rat \<Rightarrow> int" where
  "floor_log2 q =
     (let k = bitlen (fst (quotient_of q)) - bitlen (snd (quotient_of q))
      in if q < pow2 k then k - 1 else k)"

definition round_half_even :: "rat \<Rightarrow> int" where
  "round_half_even x =
     (let f = \<lfloor>x\<rfloor>; r = x - of_int f
      in if r < 1 / 2 then f else if 1 / 2 < r then f + 1 else if even f then f else f + 1)"

definition float64_of_rat :: "rat \<Rightarrow> rat option" where
  "float64_of_rat q =
     (if q = 0 then Some 0
      else
        let a = \<bar>q\<bar>;
            e = max (floor_log2 a) (- 1022);
            ulp = pow2 (e - 52);
            v = of_int (round_half_even (a / ulp)) * ulp
        in if pow2 1024 \<le> v then None else Some (if q < 0 then - v else v))"

text \<open>
  The conversion \<^verbatim>\<open>int64(t)\<close> of a \<^verbatim>\<open>float64\<close> truncates towards zero. Go leaves the result
  open when the value does not fit; the model takes what the amd64 instruction gives, the
  smallest 64-bit integer.
\<close>

definition int64_of_float64 :: "rat \<Rightarrow> int" where
  "int64_of_float64 t =
     (let i = (if 0 \<le> t then \<lfloor>t\<rfloor> else - \<lfloor>- t\<rfloor>)
      in if - (2 ^ 63) \<le> i \<and> i < 2 ^ 63 then i else - (2 ^ 63))"

text \<open>
  The text of a number: an optional minus sign, \<^verbatim>\<open>0\<close> or digits that start with a digit from
  1 to 9, an optional fraction, an optional exponent. \<open>parse_number\<close> returns the value of
  the text and what follows it.
\<close>

definition parse_number :: "string \<Rightarrow> (rat \<times> string) option" where
  "parse_number s =
     (let neg = (s \<noteq> [] \<and> hd s = CHR ''-'');
          s1 = (if neg then tl s else s);
          ip = takeWhile is_digit s1;
          s2 = dropWhile is_digit s1;
          has_frac = (s2 \<noteq> [] \<and> hd s2 = CHR ''.'');
          fp = (if has_frac then takeWhile is_digit (tl s2) else []);
          s3 = (if has_frac then dropWhile is_digit (tl s2) else s2);
          has_exp = (s3 \<noteq> [] \<and> (hd s3 = CHR ''e'' \<or> hd s3 = CHR ''E''));
          s4 = (if has_exp then tl s3 else s3);
          eneg = (has_exp \<and> s4 \<noteq> [] \<and> hd s4 = CHR ''-'');
          s5 = (if has_exp \<and> s4 \<noteq> [] \<and> (hd s4 = CHR ''-'' \<or> hd s4 = CHR ''+'') then tl s4 else s4);
          ep = (if has_exp then takeWhile is_digit s5 else []);
          s6 = (if has_exp then dropWhile is_digit s5 else s3)
      in if ip = [] \<or> (hd ip = CHR ''0'' \<and> length ip \<noteq> 1) \<or> (has_frac \<and> fp = []) \<or> (has_exp \<and> ep = [])
         then None
         else
           let m = decimal_val (ip @ fp);
               e = (if eneg then - decimal_val ep else decimal_val ep) - int (length fp);
               q = of_int m * pow10 e
           in Some (if neg then - q else q, s6))"

text \<open>
  Strings. \<open>rune_width bs\<close> is the number of bytes of the well-formed UTF-8 encoding that
  the byte values \<open>bs\<close> start with, or 0; \<open>encode_rune\<close> is the encoding of a code point.
  The decoder replaces a byte that starts no well-formed encoding, and an escaped
  surrogate without its partner, by U+FFFD.
\<close>

definition cont_byte :: "nat \<Rightarrow> bool" where
  "cont_byte b = (0x80 \<le> b \<and> b \<le> 0xBF)"

fun rune_width :: "nat list \<Rightarrow> nat" where
  "rune_width [] = 0"
| "rune_width (b0 # bs) =
     (if b0 < 0x80 then 1
      else if 0xC2 \<le> b0 \<and> b0 \<le> 0xDF then
        (case bs of b1 # _ \<Rightarrow> if cont_byte b1 then 2 else 0 | _ \<Rightarrow> 0)
      else if 0xE0 \<le> b0 \<and> b0 \<le> 0xEF then
        (case bs of
           b1 # b2 # _ \<Rightarrow>
             if (if b0 = 0xE0 then 0xA0 \<le> b1 \<and> b1 \<le> 0xBF
                 else if b0 = 0xED then 0x80 \<le> b1 \<and> b1 \<le> 0x9F
                 else cont_byte b1) \<and> cont_byte b2
             then 3 else 0
         | _ \<Rightarrow> 0)
      else if 0xF0 \<le> b0 \<and> b0 \<le> 0xF4 then
        (case bs of
           b1 # b2 # b3 # _ \<Rightarrow>
             if (if b0 = 0xF0 then 0x90 \<le> b1 \<and> b1 \<le> 0xBF
                 else if b0 = 0xF4 then 0x80 \<le> b1 \<and> b1 \<le> 0x8F
                 else cont_byte b1) \<and> cont_byte b2 \<and> cont_byte b3
             then 4 else 0
         | _ \<Rightarrow> 0)
      else 0)"

definition encode_rune :: "nat \<Rightarrow> string" where
  "encode_rune r =
     map char_of
       (if r < 0x80 then [r]
        else if r < 0x800 then [0xC0 + r div 64, 0x80 + r mod 64]
        else if r < 0x10000 then [0xE0 + r div 4096, 0x80 + (r div 64) mod 64, 0x80 + r mod 64]
        else [0xF0 + r div 262144, 0x80 + (r div 4096) mod 64, 0x80 + (r div 64) mod 64,
              0x80 + r mod 64])"

definition hex_val :: "char \<Rightarrow> nat option" where
  "hex_val c =
     (let n = (of_char c :: nat) in
      if 48 \<le> n \<and> n \<le> 57 then Some (n - 48)
      else if 97 \<le> n \<and> n \<le> 102 then Some (n - 87)
      else if 65 \<le> n \<and> n \<le> 70 then Some (n - 55)
      else None)"

text \<open>\<^verbatim>\<open>getu4\<close>, on the text after the backslash and the \<^verbatim>\<open>u\<close>: the value of four hexadecimal digits.\<close>

definition hex4 :: "string \<Rightarrow> nat option" where
  "hex4 s =
     (if length s < 4 then None
      else case those (map hex_val (take 4 s)) of
        Some [a, b, c, d] \<Rightarrow> Some (((a * 16 + b) * 16 + c) * 16 + d)
      | _ \<Rightarrow> None)"

definition simple_escape :: "char \<Rightarrow> char option" where
  "simple_escape e =
     (if e = CHR 0x22 \<or> e = CHR 0x5C \<or> e = CHR ''/'' then Some e
      else if e = CHR ''b'' then Some (CHR 0x08)
      else if e = CHR ''f'' then Some (CHR 0x0C)
      else if e = CHR ''n'' then Some (CHR 0x0A)
      else if e = CHR ''r'' then Some (CHR 0x0D)
      else if e = CHR ''t'' then Some (CHR 0x09)
      else None)"

text \<open>
  \<open>unicode_escape es\<close>, for the text \<open>es\<close> after a backslash and a \<^verbatim>\<open>u\<close>: the bytes that the
  escape stands for and the number of characters of \<open>es\<close> that it takes (ten more than the
  four digits when a second escape completes a surrogate pair).
\<close>

definition unicode_escape :: "string \<Rightarrow> (string \<times> nat) option" where
  "unicode_escape es =
     (case hex4 es of
        None \<Rightarrow> None
      | Some rr \<Rightarrow>
          if 0xD800 \<le> rr \<and> rr < 0xE000 then
            (case (if take 2 (drop 4 es) = [CHR 0x5C, CHR ''u''] then hex4 (drop 6 es) else None) of
               None \<Rightarrow> Some (encode_rune 0xFFFD, 4)
             | Some rr1 \<Rightarrow>
                 if rr < 0xDC00 \<and> 0xDC00 \<le> rr1 \<and> rr1 < 0xE000
                 then Some (encode_rune (0x10000 + (rr - 0xD800) * 0x400 + (rr1 - 0xDC00)), 10)
                 else Some (encode_rune 0xFFFD, 4))
          else Some (encode_rune rr, 4))"

text \<open>
  \<open>parse_string s\<close>, for the text \<open>s\<close> after an opening quote: the Go string and the text
  after the closing quote.
\<close>

fun parse_string :: "string \<Rightarrow> (string \<times> string) option" where
  "parse_string [] = None"
| "parse_string (c # cs) =
     (if c = CHR 0x22 then Some ([], cs)
      else if (of_char c :: nat) < 0x20 then None
      else if c = CHR 0x5C then
        (case cs of
           [] \<Rightarrow> None
         | e # es \<Rightarrow>
             if e = CHR ''u'' then
               (case unicode_escape es of
                  None \<Rightarrow> None
                | Some (bs, k) \<Rightarrow> map_option (\<lambda>(t, r). (bs @ t, r)) (parse_string (drop k es)))
             else
               (case simple_escape e of
                  None \<Rightarrow> None
                | Some b \<Rightarrow> map_option (\<lambda>(t, r). (b # t, r)) (parse_string es)))
      else if (of_char c :: nat) < 0x80 then map_option (\<lambda>(t, r). (c # t, r)) (parse_string cs)
      else if rune_width (map of_char (c # cs)) = 0
        then map_option (\<lambda>(t, r). (encode_rune 0xFFFD @ t, r)) (parse_string cs)
        else map_option (\<lambda>(t, r). (c # take (rune_width (map of_char (c # cs)) - 1) cs @ t, r))
               (parse_string (drop (rune_width (map of_char (c # cs)) - 1) cs)))"

definition json_space :: "char \<Rightarrow> bool" where
  "json_space c = (c = CHR '' '' \<or> c = CHR 0x09 \<or> c = CHR 0x0D \<or> c = CHR 0x0A)"

definition skip_ws :: "string \<Rightarrow> string" where
  "skip_ws s = dropWhile json_space s"

text \<open>
  A value, the elements of an array after its bracket, the members of an object after
  its brace. The first argument bounds the number of calls; twice the length of the text
  and two suffice for every text, since two calls in a row take at least one character.
  The second is the number of arrays and objects that are open; the package fails beyond
  10000.
\<close>

fun parse_value :: "nat \<Rightarrow> nat \<Rightarrow> string \<Rightarrow> (any \<times> string) option"
  and parse_elements :: "nat \<Rightarrow> nat \<Rightarrow> string \<Rightarrow> (any list \<times> string) option"
  and parse_members :: "nat \<Rightarrow> nat \<Rightarrow> string \<Rightarrow> ((string \<times> any) list \<times> string) option" where
  "parse_value 0 depth s = None"
| "parse_value (Suc n) depth s =
     (case skip_ws s of
        [] \<Rightarrow> None
      | c # cs \<Rightarrow>
          if c = CHR ''{'' then
            (if 10000 \<le> depth then None
             else if take 1 (skip_ws cs) = ''}'' then Some (AnyMap [], tl (skip_ws cs))
             else map_option (\<lambda>(ms, r). (AnyMap ms, r)) (parse_members n (depth + 1) cs))
          else if c = CHR ''['' then
            (if 10000 \<le> depth then None
             else if take 1 (skip_ws cs) = '']'' then Some (AnySlice [], tl (skip_ws cs))
             else map_option (\<lambda>(vs, r). (AnySlice vs, r)) (parse_elements n (depth + 1) cs))
          else if c = CHR 0x22 then map_option (\<lambda>(t, r). (AnyString t, r)) (parse_string cs)
          else if c = CHR ''-'' \<or> is_digit c then
            (case parse_number (c # cs) of
               None \<Rightarrow> None
             | Some (q, r) \<Rightarrow> map_option (\<lambda>f. (AnyFloat64 f, r)) (float64_of_rat q))
          else if take 4 (c # cs) = ''true'' then Some (AnyBool True, drop 4 (c # cs))
          else if take 5 (c # cs) = ''false'' then Some (AnyBool False, drop 5 (c # cs))
          else if take 4 (c # cs) = ''null'' then Some (AnyNil, drop 4 (c # cs))
          else None)"
| "parse_elements 0 depth s = None"
| "parse_elements (Suc n) depth s =
     (case parse_value n depth s of
        None \<Rightarrow> None
      | Some (v, r) \<Rightarrow>
          if take 1 (skip_ws r) = '','' then
            map_option (\<lambda>(vs, r'). (v # vs, r')) (parse_elements n depth (tl (skip_ws r)))
          else if take 1 (skip_ws r) = '']'' then Some ([v], tl (skip_ws r))
          else None)"
| "parse_members 0 depth s = None"
| "parse_members (Suc n) depth s =
     (if take 1 (skip_ws s) \<noteq> [CHR 0x22] then None
      else case parse_string (tl (skip_ws s)) of
        None \<Rightarrow> None
      | Some (k, r) \<Rightarrow>
          if take 1 (skip_ws r) \<noteq> '':'' then None
          else case parse_value n depth (tl (skip_ws r)) of
            None \<Rightarrow> None
          | Some (v, r') \<Rightarrow>
              if take 1 (skip_ws r') = '','' then
                map_option (\<lambda>(ms, r''). ((k, v) # ms, r'')) (parse_members n depth (tl (skip_ws r')))
              else if take 1 (skip_ws r') = ''}'' then Some ([(k, v)], tl (skip_ws r'))
              else None)"

text \<open>
  \<^verbatim>\<open>json.Unmarshal(data, &claims)\<close> for a nil \<^verbatim>\<open>claims\<close> of type \<^verbatim>\<open>map[string]any\<close>: the text is
  one value between white space; an object gives the map of its members, \<^verbatim>\<open>null\<close> leaves
  the map nil (a map without keys when it is read), any other value is an error. \<open>None\<close> is
  a non-nil \<^verbatim>\<open>err\<close>.
\<close>

definition Unmarshal :: "string \<Rightarrow> (string \<rightharpoonup> any) option" where
  "Unmarshal data =
     (case parse_value (2 * length data + 2) 0 data of
        None \<Rightarrow> None
      | Some (v, r) \<Rightarrow>
          if skip_ws r \<noteq> [] then None
          else case v of
            AnyMap ms \<Rightarrow> Some (map_of (rev ms))
          | AnyNil \<Rightarrow> Some Map.empty
          | _ \<Rightarrow> None)"

subsection \<open>The claim \<^verbatim>\<open>exp\<close>\<close>

datatype parse_error =
    NotCompactJWS
  | PayloadB64Decode
  | PayloadJson
  | NoExpClaim
  | ExpTypeUnsupported

text \<open>
  \<^verbatim>\<open>time.Unix(sec, nsec)\<close>. Go moves the whole seconds of \<^verbatim>\<open>nsec\<close> into \<^verbatim>\<open>sec\<close> and keeps in
  the \<^verbatim>\<open>Time\<close> the seconds since the year 1, \<^verbatim>\<open>sec + unixToInternal\<close>, a 64-bit signed sum that
  wraps around: seconds from \<open>2 ^ 63 - 62135596800\<close> on give an instant far in the past.
\<close>

definition unixToInternal :: int where
  "unixToInternal = 62135596800"

definition Unix :: "int \<Rightarrow> int \<Rightarrow> instant" where
  "Unix sec nsec =
     (sint (word_of_int (sec + nsec div 1000000000 + unixToInternal) :: 64 word) - unixToInternal)
       * Second + nsec mod 1000000000"

definition parseJWTExp :: "string \<Rightarrow> parse_error + instant" where
  "parseJWTExp jwt =
     (let parts = Split jwt CHR ''.'' in
      if length parts \<noteq> 3 then Inl NotCompactJWS
      else case DecodeString (parts ! 1) of
        None \<Rightarrow> Inl PayloadB64Decode
      | Some payloadB \<Rightarrow>
          (case Unmarshal payloadB of
             None \<Rightarrow> Inl PayloadJson
           | Some claims \<Rightarrow>
               (case claims ''exp'' of
                  None \<Rightarrow> Inl NoExpClaim
                | Some expVal \<Rightarrow>
                    (case expVal of
                       AnyFloat64 t \<Rightarrow> Inr (Unix (int64_of_float64 t) 0)
                     | AnyNumber t \<Rightarrow> Inr (Unix (case Atoi t of Some v \<Rightarrow> v | None \<Rightarrow> 0) 0)
                     | _ \<Rightarrow> Inl ExpTypeUnsupported))))"

section \<open>The records of the gateway\<close>

text \<open>
  The messages of the package \<^verbatim>\<open>coprocess\<close> (generated from the gateway's protocol files,
  not part of the plugin's sources), with the fields that the plugin reads or writes. A
  pointer that may be nil is an \<^typ>\<open>'a option\<close>, and so is a map: \<open>None\<close> is the nil map, which
  reads as a map without keys and cannot be written. The field \<^verbatim>\<open>Headers\<close> of
  \<^verbatim>\<open>ReturnOverrides\<close> is \<open>OverrideHeaders\<close> here, apart from the field \<^verbatim>\<open>Headers\<close> of the request.
\<close>

type_synonym string_map = "(string \<rightharpoonup> string) option"

record return_overrides =
  ResponseCode :: int
  ResponseError :: string
  OverrideHeaders :: string_map
  OverrideError :: bool
  ResponseBody :: string

record mini_request_object =
  Headers :: string_map
  SetHeaders :: string_map
  ReturnOverrides :: "return_overrides option"

record session_state =
  Rate :: rat
  Per :: rat
  QuotaMax :: int
  QuotaRemaining :: int
  QuotaRenewalRate :: int
  LastUpdated :: string
  IdExtractorDeadline :: int

record object =
  HookName :: string
  Request :: "mini_request_object option"
  Session :: "session_state option"
  Metadata :: string_map

text \<open>The literals \<^verbatim>\<open>&coprocess.ReturnOverrides{}\<close>, \<^verbatim>\<open>&coprocess.MiniRequestObject{}\<close> and \<^verbatim>\<open>&coprocess.SessionState{}\<close>.\<close>

definition zero_overrides :: return_overrides where
  "zero_overrides =
     \<lparr>ResponseCode = 0, ResponseError = [], OverrideHeaders = None, OverrideError = False,
      ResponseBody = []\<rparr>"

definition zero_request :: mini_request_object where
  "zero_request = \<lparr>Headers = None, SetHeaders = None, ReturnOverrides = None\<rparr>"

definition zero_session :: session_state where
  "zero_session =
     \<lparr>Rate = 0, Per = 0, QuotaMax = 0, QuotaRemaining = 0, QuotaRenewalRate = 0,
      LastUpdated = [], IdExtractorDeadline = 0\<rparr>"

text \<open>
  What stops a hook without a result: the run-time panics of Go. Reading a map, nil or not,
  gives the empty string for a key that it does not have.
\<close>

datatype fault = NilPointerDereference | NilMapWrite

definition index_map :: "string_map \<Rightarrow> string \<Rightarrow> string" where
  "index_map m k =
     (case m of
        None \<Rightarrow> []
      | Some f \<Rightarrow> (case f k of None \<Rightarrow> [] | Some v \<Rightarrow> v))"

definition store_map :: "string_map \<Rightarrow> string \<Rightarrow> string \<Rightarrow> fault + string_map" where
  "store_map m k v =
     (case m of
        None \<Rightarrow> Inl NilMapWrite
      | Some f \<Rightarrow> Inr (Some (f(k \<mapsto> v))))"

text \<open>The getters that the protocol compiler generates: they accept a nil receiver.\<close>

definition GetRequest :: "object \<Rightarrow> mini_request_object option" where
  "GetRequest obj = Request obj"

definition GetHeaders :: "mini_request_object option \<Rightarrow> string_map" where
  "GetHeaders r = (case r of None \<Rightarrow> None | Some x \<Rightarrow> Headers x)"

section \<open>Helpers\<close>

definition ensureMetadata :: "object \<Rightarrow> object" where
  "ensureMetadata obj =
     (if Metadata obj = None then obj\<lparr>Metadata := Some Map.empty\<rparr> else obj)"

definition ensureSession :: "object \<Rightarrow> object" where
  "ensureSession obj =
     (let s = (case Session obj of None \<Rightarrow> zero_session | Some x \<Rightarrow> x)
      in obj\<lparr>Session := Some (s\<lparr>Rate := 0, Per := 0, QuotaMax := - 1, QuotaRemaining := - 1,
                                 QuotaRenewalRate := 0, LastUpdated := [],
                                 IdExtractorDeadline := 0\<rparr>)\<rparr>)"

definition www_authenticate :: string where
  "www_authenticate = ''Bearer error='' @ [CHR 0x22] @ ''invalid_token'' @ [CHR 0x22]"

definition unauthorized :: "object \<Rightarrow> string \<Rightarrow> object" where
  "unauthorized obj msg =
     (let r = (case Request obj of None \<Rightarrow> zero_request | Some x \<Rightarrow> x);
          ro = (case ReturnOverrides r of None \<Rightarrow> zero_overrides | Some x \<Rightarrow> x);
          hs = (case OverrideHeaders ro of None \<Rightarrow> Map.empty | Some x \<Rightarrow> x)
      in obj\<lparr>Request := Some (r\<lparr>ReturnOverrides := Some (ro
           \<lparr>ResponseCode := 401,
            ResponseError := msg,
            ResponseBody := msg,
            OverrideHeaders := Some (hs(''WWW-Authenticate'' \<mapsto> www_authenticate)),
            OverrideError := True\<rparr>)\<rparr>)\<rparr>)"

text \<open>\<^verbatim>\<open>fmt.Sprintf("%x", sum[:])\<close> of the digest \<open>Sum256 s\<close>; the hash function is a parameter.\<close>

definition hex_digit :: "nat \<Rightarrow> char" where
  "hex_digit n = (if n < 10 then char_of (48 + n) else char_of (87 + n))"

definition hex_bytes :: "string \<Rightarrow> string" where
  "hex_bytes bs = concat (map (\<lambda>b. [hex_digit ((of_char b :: nat) div 16), hex_digit ((of_char b :: nat) mod 16)]) bs)"

definition sha256Hex :: "(string \<Rightarrow> string) \<Rightarrow> string \<Rightarrow> string" where
  "sha256Hex Sum256 s = hex_bytes (Sum256 s)"

section \<open>Introspection\<close>

text \<open>
  What the network gives for the request that \<^verbatim>\<open>introspectForJWTAndExp\<close> sends:
  \<^verbatim>\<open>http.NewRequest\<close> fails, or \<^verbatim>\<open>httpClient.Do\<close> fails (each with the text of its error), or
  there is a response: its status code, the bytes that its body yields, and the text
  of the error that ends the reading of the body when it is not the end of the body.
  The zero \<^verbatim>\<open>time.Time\<close> is the first instant of the year 1. An \<^verbatim>\<open>error\<close> is the text of the
  error, \<open>None\<close> the nil error.
\<close>

datatype http_outcome =
    NewRequestFailed string
  | DoFailed string
  | Response int string "string option"

definition zero_Time :: instant where
  "zero_Time = Unix (- 62135596800) 0"

definition introspectForJWTAndExp ::
    "http_outcome \<Rightarrow> instant \<Rightarrow> string \<Rightarrow> string \<times> instant \<times> string option" where
  "introspectForJWTAndExp net now opaque =
     (case net of
        NewRequestFailed err \<Rightarrow> ([], zero_Time, Some err)
      | DoFailed err \<Rightarrow> ([], zero_Time, Some err)
      | Response StatusCode body read_err \<Rightarrow>
          if StatusCode \<noteq> 200 then
            ([], zero_Time,
             Some (''introspection status '' @ Itoa StatusCode @ '': '' @ TrimSpace (take 512 body)))
          else
            (case read_err of
               Some err \<Rightarrow> ([], zero_Time, Some err)
             | None \<Rightarrow>
                 let j = TrimSpace body in
                 if countDots j \<noteq> 2 then ([], zero_Time, None)
                 else case parseJWTExp j of
                   Inl err \<Rightarrow> (j, Add now (30 * Second), None)
                 | Inr ex \<Rightarrow> (j, ex, None)))"

section \<open>The hooks\<close>

text \<open>
  What a call of \<^verbatim>\<open>phantomAuthCheck\<close> takes from outside: the package variable \<^verbatim>\<open>clockSkew\<close>,
  the hash function, the outcome of the network for its request, and the clock readings
  of \<^verbatim>\<open>cStore.get\<close>, of \<^verbatim>\<open>introspectForJWTAndExp\<close> and of \<^verbatim>\<open>cStore.set\<close>, in the order of the calls.
  A hook returns the object and a nil \<^verbatim>\<open>error\<close>; \<^verbatim>\<open>phantomAuthCheck\<close> also leaves a cache.
\<close>

record env =
  env_clockSkew :: duration
  env_Sum256 :: "string \<Rightarrow> string"
  env_net :: http_outcome
  env_now_get :: instant
  env_now_introspect :: instant
  env_now_set :: instant

type_synonym hook_result = "object \<times> string option"

definition accept :: "object \<Rightarrow> string \<Rightarrow> string \<Rightarrow> fault + hook_result" where
  "accept obj jwt opaque =
     (let obj1 = ensureMetadata obj in
      case store_map (Metadata obj1) ''phantom_jwt'' jwt of
        Inl f \<Rightarrow> Inl f
      | Inr m1 \<Rightarrow>
          (case store_map m1 ''token'' opaque of
             Inl f \<Rightarrow> Inl f
           | Inr m2 \<Rightarrow> Inr (ensureSession (obj1\<lparr>Metadata := m2\<rparr>), None)))"

definition phantomAuthCheck ::
    "env \<Rightarrow> cache_data \<Rightarrow> object \<Rightarrow> fault + hook_result \<times> cache_data" where
  "phantomAuthCheck e cStore obj =
     (let auth = index_map (GetHeaders (GetRequest obj)) ''Authorization'';
          opaque = extractBearer auth
      in if opaque = [] then Inr ((unauthorized obj ''Missing bearer token'', None), cStore)
         else
           let key = sha256Hex (env_Sum256 e) opaque;
               (hit, cStore1) = jwtCache_get (env_now_get e) key cStore
           in if snd hit then map_sum id (\<lambda>r. (r, cStore1)) (accept obj (fst hit) opaque)
              else
                let (jwt, ex, err) = introspectForJWTAndExp (env_net e) (env_now_introspect e) opaque
                in case err of
                     Some msg \<Rightarrow>
                       Inr ((unauthorized obj (''Introspection error: '' @ msg), None), cStore1)
                   | None \<Rightarrow>
                       if jwt = [] then
                         Inr ((unauthorized obj ''Token inactive or invalid'', None), cStore1)
                       else
                         let storeUntil = Add ex (- env_clockSkew e);
                             cStore2 = jwtCache_set (env_clockSkew e) (env_now_set e) key jwt
                                         storeUntil cStore1
                         in map_sum id (\<lambda>r. (r, cStore2)) (accept obj jwt opaque))"

definition injectJwtPostKeyAuth :: "object \<Rightarrow> fault + hook_result" where
  "injectJwtPostKeyAuth obj =
     (let jwt = (if Metadata obj \<noteq> None then index_map (Metadata obj) ''phantom_jwt'' else [])
      in if jwt = [] then Inr (unauthorized obj ''JWT missing post-auth'', None)
         else case Request obj of
           None \<Rightarrow> Inl NilPointerDereference
         | Some r \<Rightarrow>
             (let r1 = (if SetHeaders r = None then r\<lparr>SetHeaders := Some Map.empty\<rparr> else r) in
              case store_map (SetHeaders r1) ''Authorization'' (''Bearer '' @ jwt) of
                Inl f \<Rightarrow> Inl f
              | Inr hs \<Rightarrow> Inr (obj\<lparr>Request := Some (r1\<lparr>SetHeaders := hs\<rparr>)\<rparr>, None)))"

definition Dispatch :: "env \<Rightarrow> cache_data \<Rightarrow> object \<Rightarrow> fault + hook_result \<times> cache_data" where
  "Dispatch e cStore obj =
     (if HookName obj = ''PhantomAuthCheck'' then phantomAuthCheck e cStore obj
      else if HookName obj = ''InjectJwtPostKeyAuth''
        then map_sum id (\<lambda>r. (r, cStore)) (injectJwtPostKeyAuth obj)
        else Inr ((obj, None), cStore))"

section \<open>Sample data\<close>

text \<open>
  A cache of \<open>n\<close> entries with the keys \<^verbatim>\<open>k\<close>, \<^verbatim>\<open>kk\<close>, \<^verbatim>\<open>kkk\<close>, ... that all expire at \<open>ex\<close>; an
  object of the gateway for a request with the header \<^verbatim>\<open>Authorization: Bearer OPAQUE1\<close>; an
  environment with the default margin, the outcome \<open>net\<close> of the network and one clock
  reading for the three calls (its hash function stands in for SHA-256, which no
  property below depends on); and what the gateway reads as a short-circuit of the request
  with the status 401 and the reason \<open>msg\<close>.
\<close>

definition sample_keys :: "nat \<Rightarrow> string list" where
  "sample_keys n = map (\<lambda>i. replicate (Suc i) CHR ''k'') [0..<n]"

definition sample_cache :: "nat \<Rightarrow> instant \<Rightarrow> cache_data" where
  "sample_cache n ex = map_of (map (\<lambda>k. (k, \<lparr>JWT = ''J'', Expires = ex\<rparr>)) (sample_keys n))"

definition short_circuit_401 :: "object \<Rightarrow> string \<Rightarrow> bool" where
  "short_circuit_401 obj msg =
     (case Request obj of
        None \<Rightarrow> False
      | Some r \<Rightarrow>
          (case ReturnOverrides r of
             None \<Rightarrow> False
           | Some ro \<Rightarrow>
               ResponseCode ro = 401 \<and>
               index_map (OverrideHeaders ro) ''WWW-Authenticate'' = www_authenticate \<and>
               ResponseError ro = msg \<and> ResponseBody ro = msg))"

definition sample_object :: "string \<Rightarrow> object" where
  "sample_object hook =
     \<lparr>HookName = hook,
      Request = Some \<lparr>Headers = Some [''Authorization'' \<mapsto> ''Bearer OPAQUE1''],
                      SetHeaders = None, ReturnOverrides = None\<rparr>,
      Session = None,
      Metadata = None\<rparr>"

definition sample_env :: "http_outcome \<Rightarrow> env" where
  "sample_env net =
     \<lparr>env_clockSkew = clockSkew_of_env [],
      env_Sum256 = (\<lambda>s. take 32 (s @ replicate 32 (CHR 0x00))),
      env_net = net,
      env_now_get = Unix 1700000000 0,
      env_now_introspect = Unix 1700000000 0,
      env_now_set = Unix 1700000000 0\<rparr>"

section \<open>Instants from Unix seconds\<close>

text \<open>Within the 64-bit seconds since the year 1, \<open>Unix\<close> counts the nanoseconds from the epoch.\<close>

lemma sint_word64: "- (2 ^ 63) \<le> k \<Longrightarrow> k < 2 ^ 63 \<Longrightarrow> sint (word_of_int k :: 64 word) = k"
  by (simp add: sint_sbintrunc' signed_take_bit_int_eq_self)

lemma Unix_in_range:
  assumes "- (2 ^ 63) \<le> sec + unixToInternal" and "sec + unixToInternal < 2 ^ 63"
  shows "Unix sec 0 = sec * Second"
proof -
  have "sint (word_of_int (sec + unixToInternal) :: 64 word) = sec + unixToInternal"
    using assms by (rule sint_word64)
  then show ?thesis by (simp only: Unix_def) simp
qed

lemma Unix_sample [simp]:
  "Unix 1700000000 0 = 1700000000 * Second"
  "Unix 1700000001 0 = 1700000001 * Second"
  "Unix 1700003600 0 = 1700003600 * Second"
  by (rule Unix_in_range; simp add: unixToInternal_def)+

section \<open>Counting the entries of the cache\<close>

lemma keys_in_range_order: "distinct ks \<Longrightarrow> D \<subseteq> set ks \<Longrightarrow> range_order (keys_in ks) D"
  by (auto simp: range_order_def keys_in_def)

lemma card_dom_delete:
  assumes "finite (dom d)" and "k \<in> dom d"
  shows "int (card (dom (d(k := None)))) = int (card (dom d)) - 1"
proof -
  have "Suc (card (dom d - {k})) = card (dom d)"
    using assms by (rule card_Suc_Diff1)
  then show ?thesis by simp
qed

text \<open>
  The loop over \<^verbatim>\<open>items\<close> drops what it counts: it never counts beyond \<^verbatim>\<open>toDrop\<close>, and the map
  loses one entry for each unit of \<^verbatim>\<open>dropped\<close>.
\<close>

lemma drop_nearly_dead_count:
  "finite (dom d) \<Longrightarrow> distinct (map fst items) \<Longrightarrow> fst ` set items \<subseteq> dom d \<Longrightarrow>
   dropped \<le> toDrop \<Longrightarrow>
   drop_nearly_dead now toDrop items dropped d = (dropped', d1) \<Longrightarrow>
   dropped \<le> dropped' \<and> dropped' \<le> toDrop \<and> dom d1 \<subseteq> dom d \<and>
   int (card (dom d1)) = int (card (dom d)) - (dropped' - dropped)"
proof (induction items arbitrary: dropped d)
  case Nil
  then show ?case by simp
next
  case (Cons it items)
  have dist: "distinct (map fst items)" and notin: "fst it \<notin> fst ` set items"
    using Cons.prems(2) by simp_all
  show ?case
  proof (cases "dropped \<ge> toDrop")
    case True
    with Cons.prems show ?thesis by simp
  next
    case False
    show ?thesis
    proof (cases "nearly_dead now (snd it)")
      case True
      let ?d = "d(fst it := None)"
      have r: "drop_nearly_dead now toDrop items (dropped + 1) ?d = (dropped', d1)"
        using Cons.prems(5) False True by simp
      have in_d: "fst it \<in> dom d" using Cons.prems(3) by simp
      have c: "int (card (dom ?d)) = int (card (dom d)) - 1"
        using Cons.prems(1) in_d by (rule card_dom_delete)
      have fin: "finite (dom ?d)" using Cons.prems(1) by simp
      have "fst ` set items \<subseteq> dom d" using Cons.prems(3) by simp
      with notin have "fst ` set items \<subseteq> dom d - {fst it}" by blast
      then have sub: "fst ` set items \<subseteq> dom ?d" by simp
      have le: "dropped + 1 \<le> toDrop" using False by simp
      have ih: "dropped + 1 \<le> dropped' \<and> dropped' \<le> toDrop \<and> dom d1 \<subseteq> dom ?d \<and>
          int (card (dom d1)) = int (card (dom ?d)) - (dropped' - (dropped + 1))"
        using fin dist sub le r by (rule Cons.IH)
      have "dom ?d \<subseteq> dom d" by auto
      with ih c show ?thesis by auto
    next
      case alive: False
      have r: "drop_nearly_dead now toDrop items dropped d = (dropped', d1)"
        using Cons.prems(5) False alive by simp
      have sub: "fst ` set items \<subseteq> dom d" using Cons.prems(3) by simp
      show ?thesis using Cons.prems(1) dist sub Cons.prems(4) r by (rule Cons.IH)
    qed
  qed
qed

text \<open>The last loop drops what is missing, as far as the map has entries.\<close>

lemma drop_any_count:
  "finite (dom d) \<Longrightarrow> distinct ks \<Longrightarrow> set ks \<subseteq> dom d \<Longrightarrow> dropped \<le> toDrop \<Longrightarrow>
   int (card (dom (drop_any toDrop ks dropped d))) =
     int (card (dom d)) - min (toDrop - dropped) (int (length ks))"
proof (induction ks arbitrary: dropped d)
  case Nil
  then show ?case by simp
next
  case (Cons k ks)
  have dist: "distinct ks" and notin: "k \<notin> set ks"
    using Cons.prems(2) by simp_all
  show ?case
  proof (cases "dropped \<ge> toDrop")
    case True
    with Cons.prems show ?thesis by simp
  next
    case False
    let ?d = "d(k := None)"
    have in_d: "k \<in> dom d" using Cons.prems(3) by simp
    have c: "int (card (dom ?d)) = int (card (dom d)) - 1"
      using Cons.prems(1) in_d by (rule card_dom_delete)
    have fin: "finite (dom ?d)" using Cons.prems(1) by simp
    have sub: "set ks \<subseteq> dom ?d" using notin Cons.prems(3) by auto
    have le: "dropped + 1 \<le> toDrop" using False by simp
    have ih: "int (card (dom (drop_any toDrop ks (dropped + 1) ?d))) =
            int (card (dom ?d)) - min (toDrop - (dropped + 1)) (int (length ks))"
      using fin dist sub le by (rule Cons.IH)
    have "drop_any toDrop (k # ks) dropped d = drop_any toDrop ks (dropped + 1) ?d"
      using False by simp
    with ih c False show ?thesis by (simp add: min_def)
  qed
qed

lemma collect_items_keys: "map fst (collect_items ks d) = filter (\<lambda>k. d k \<noteq> None) ks"
  by (induction ks) (auto simp: collect_items_def List.map_filter_simps split: option.splits)

text \<open>With a positive \<^verbatim>\<open>cacheMax\<close>, \<^verbatim>\<open>enforceCap\<close> leaves \<^verbatim>\<open>cacheMax\<close> entries of a larger map.\<close>

lemma enforceCap_count:
  assumes pos: "0 < cacheMax" and r1: "range_order rng1 (dom d)" and r2: "range_order rng2 (dom d)"
  shows "int (card (dom (jwtCache_enforceCap cacheMax now rng1 rng2 d))) =
           min (int (card (dom d))) cacheMax"
proof (cases "int (card (dom d)) \<le> cacheMax")
  case True
  then show ?thesis using pos by (simp add: jwtCache_enforceCap_def)
next
  case False
  define n where "n = int (card (dom d))"
  define toDrop where "toDrop = n - cacheMax"
  obtain dropped d1
    where p1: "drop_nearly_dead now toDrop (collect_items (rng1 d) d) 0 d = (dropped, d1)"
    by (cases "drop_nearly_dead now toDrop (collect_items (rng1 d) d) 0 d") auto
  have k1: "distinct (rng1 d)" "set (rng1 d) = dom d"
    using r1 by (auto simp: range_order_def)
  then have fin: "finite (dom d)" by (metis List.finite_set)
  have td: "0 \<le> toDrop" using False by (simp add: toDrop_def n_def)
  have "distinct (map fst (collect_items (rng1 d) d))"
    "fst ` set (collect_items (rng1 d) d) \<subseteq> dom d"
    using k1 by (auto simp: collect_items_keys simp flip: set_map)
  from drop_nearly_dead_count[OF fin this td p1]
  have a: "dropped \<le> toDrop" "dom d1 \<subseteq> dom d" "int (card (dom d1)) = n - dropped" "0 \<le> dropped"
    by (auto simp: n_def)
  have k2: "distinct (rng2 d1)" "set (rng2 d1) = dom d1"
    using r2 a(2) by (auto simp: range_order_def)
  have fin1: "finite (dom d1)" using fin a(2) by (rule rev_finite_subset)
  have len: "int (length (rng2 d1)) = int (card (dom d1))"
    using k2 by (metis distinct_card)
  have "int (card (dom (drop_any toDrop (rng2 d1) dropped d1))) =
          int (card (dom d1)) - min (toDrop - dropped) (int (length (rng2 d1)))"
    using drop_any_count[OF fin1 k2(1) _ a(1)] k2(2) by simp
  also have "\<dots> = cacheMax" using a len pos by (simp add: toDrop_def)
  finally have "int (card (dom (drop_any toDrop (rng2 d1) dropped d1))) = cacheMax" .
  moreover have "jwtCache_enforceCap cacheMax now rng1 rng2 d = drop_any toDrop (rng2 d1) dropped d1"
    using False pos p1 by (simp add: jwtCache_enforceCap_def Let_def toDrop_def n_def)
  ultimately show ?thesis using False by simp
qed

lemma purge_loop_dom: "dom (purge_loop now ks d) \<subseteq> dom d"
proof (induction ks arbitrary: d)
  case Nil
  show ?case by simp
next
  case (Cons k ks)
  have "dom (purge_loop now ks (d(k := None))) \<subseteq> dom (d(k := None))" by (rule Cons.IH)
  also have "\<dots> \<subseteq> dom d" by auto
  finally show ?case using Cons.IH[of d] by (simp split: option.splits)
qed

lemma sample_keys_distinct: "distinct (sample_keys n)"
proof -
  have "inj_on (\<lambda>i. replicate (Suc i) CHR ''k'') (set [0..<n])"
    by (rule inj_onI) (metis length_replicate nat.inject)
  then show ?thesis by (simp add: sample_keys_def distinct_map)
qed

lemma sample_cache_dom: "dom (sample_cache n ex) = set (sample_keys n)"
  by (simp add: sample_cache_def dom_map_of_conv_image_fst image_image)

lemma sample_cache_card: "card (dom (sample_cache n ex)) = n"
proof -
  have "card (set (sample_keys n)) = length (sample_keys n)"
    using sample_keys_distinct by (rule distinct_card)
  then show ?thesis by (simp add: sample_cache_dom sample_keys_def)
qed

lemma sample_range_order: "range_order (keys_in (sample_keys n)) (dom (sample_cache n ex))"
  by (rule keys_in_range_order) (simp_all add: sample_keys_distinct sample_cache_dom)

section \<open>The cache: lookups, insertions, reclamation\<close>

text \<open>
  C1, as the code has it. With a margin of 30 seconds, after \<^verbatim>\<open>set(k, "J", now+60s)\<close> the
  entry is stored with the expiry \<^verbatim>\<open>now+60s\<close>; \<^verbatim>\<open>get(k)\<close> returns \<^verbatim>\<open>("J", true)\<close> at \<^verbatim>\<open>now+29s\<close>, and at
  \<^verbatim>\<open>now+31s\<close> as well: \<^verbatim>\<open>get\<close> compares the instant of the call with the stored expiry and does
  not use the margin, so it reports not-found only strictly after \<^verbatim>\<open>now+60s\<close>.
\<close>

theorem get_after_set_hits_until_expiry:
  "let d' = jwtCache_set (30 * Second) now k ''J'' (Add now (60 * Second)) d in
     d' k = Some \<lparr>JWT = ''J'', Expires = Add now (60 * Second)\<rparr> \<and>
     fst (jwtCache_get (Add now (29 * Second)) k d') = (''J'', True) \<and>
     fst (jwtCache_get (Add now (31 * Second)) k d') = (''J'', True) \<and>
     fst (jwtCache_get t k d') =
       (if After t (Add now (60 * Second)) then ([], False) else (''J'', True))"
  by (simp add: jwtCache_get_def jwtCache_set_def Add_def After_def Before_def Second_def)

text \<open>
  C1 as the specification states it fails: on an empty cache, 31 seconds after the
  insertion the lookup still finds the entry.
\<close>

theorem get_at_31s_still_hits:
  "fst (jwtCache_get (Add (Unix 1700000000 0) (31 * Second)) ''k''
         (jwtCache_set (30 * Second) (Unix 1700000000 0) ''k'' ''J''
            (Add (Unix 1700000000 0) (60 * Second)) Map.empty)) = (''J'', True)"
  by (simp add: jwtCache_get_def jwtCache_set_def Add_def After_def Before_def Second_def)

text \<open>
  C5. A call \<^verbatim>\<open>set(k, jwt, exp)\<close> at the instant \<open>now\<close> with \<^verbatim>\<open>exp - skew <= now\<close> leaves the cache
  as it is: every later \<^verbatim>\<open>get(k)\<close> returns what it would have returned without the call, and
  not-found when the cache had no entry for \<open>k\<close>.
\<close>

theorem set_expired_is_noop:
  assumes "Add expires (- clockSkew) \<le> now"
  shows "jwtCache_set clockSkew now k jwt expires d = d \<and>
         jwtCache_get t k (jwtCache_set clockSkew now k jwt expires d) = jwtCache_get t k d \<and>
         (d k = None \<longrightarrow>
            fst (jwtCache_get t k (jwtCache_set clockSkew now k jwt expires d)) = ([], False))"
proof -
  have "jwtCache_set clockSkew now k jwt expires d = d"
    using assms by (simp add: jwtCache_set_def Add_def Before_def)
  then show ?thesis by (simp add: jwtCache_get_def)
qed

text \<open>The instance of the specification: a margin of 30 seconds and an expiry equal to \<open>now\<close>.\<close>

theorem set_expired_is_noop_witness:
  "Add (Unix 1700000000 0) (- (30 * Second)) \<le> Unix 1700000000 0 \<and>
   jwtCache_set (30 * Second) (Unix 1700000000 0) ''k'' ''J'' (Unix 1700000000 0) Map.empty
     = Map.empty \<and>
   fst (jwtCache_get (Unix 1700000001 0) ''k''
         (jwtCache_set (30 * Second) (Unix 1700000000 0) ''k'' ''J'' (Unix 1700000000 0)
            Map.empty)) = ([], False)"
proof -
  have h: "Add (Unix 1700000000 0) (- (30 * Second)) \<le> Unix 1700000000 0"
    by (simp add: Add_def Second_def)
  from set_expired_is_noop[OF h, of "''k''" "''J''" Map.empty "Unix 1700000001 0"] h
  show ?thesis by blast
qed

text \<open>
  C6. With a positive \<^verbatim>\<open>cacheMax\<close>, one tick of the janitor (the sweep of the expired
  entries, then the enforcement of the capacity) leaves at most \<^verbatim>\<open>cacheMax\<close> entries, however
  many the cache held and in whatever order the loops range over the map.
\<close>

theorem janitor_tick_capacity_bound:
  assumes "0 < cacheMax" and "range_order rng1 (dom d)" and "range_order rng2 (dom d)"
  shows "int (card (dom (janitor_tick cacheMax now0 now1 rng0 rng1 rng2 d))) \<le> cacheMax"
proof -
  let ?p = "jwtCache_purgeExpired now0 rng0 d"
  have sub: "dom ?p \<subseteq> dom d"
    by (simp add: jwtCache_purgeExpired_def purge_loop_dom)
  have r1: "range_order rng1 (dom ?p)" and r2: "range_order rng2 (dom ?p)"
    using assms(2,3) sub by (auto simp: range_order_def)
  have "int (card (dom (jwtCache_enforceCap cacheMax now1 rng1 rng2 ?p))) =
          min (int (card (dom ?p))) cacheMax"
    using assms(1) r1 r2 by (rule enforceCap_count)
  then show ?thesis by (simp add: janitor_tick_def)
qed

text \<open>Three entries that are valid for another hour, and a capacity of two.\<close>

theorem janitor_tick_capacity_bound_witness:
  "(0::int) < 2 \<and>
   range_order (keys_in (sample_keys 3)) (dom (sample_cache 3 (Unix 1700003600 0))) \<and>
   card (dom (sample_cache 3 (Unix 1700003600 0))) = 3 \<and>
   int (card (dom (janitor_tick 2 (Unix 1700000000 0) (Unix 1700000000 0)
       (keys_in (sample_keys 3)) (keys_in (sample_keys 3)) (keys_in (sample_keys 3))
       (sample_cache 3 (Unix 1700003600 0))))) \<le> 2"
proof -
  have r: "range_order (keys_in (sample_keys 3)) (dom (sample_cache 3 (Unix 1700003600 0)))"
    by (rule sample_range_order)
  have p: "(0::int) < 2" by simp
  from janitor_tick_capacity_bound[OF p r r] r show ?thesis
    by (simp add: sample_cache_card)
qed

section \<open>The capacity from the environment\<close>

lemma Atoi_Nil: "Atoi [] = None"
  by (simp add: Atoi_def)

lemma cacheMax_of_minus_one: "cacheMax_of_env ''-1'' = 10000"
  by (simp add: cacheMax_of_env_def intFromEnv_def Atoi_def is_digit_def decimal_val_def
      digit_val_def)

text \<open>
  C2, as the code has it. \<^verbatim>\<open>enforceCap\<close> removes nothing whenever \<^verbatim>\<open>cacheMax\<close> is zero or
  negative, and the value 0 of \<^verbatim>\<open>CACHE_MAX_ENTRIES\<close> gives a \<^verbatim>\<open>cacheMax\<close> of zero, so it disables
  the enforcement. A negative value does not: \<^verbatim>\<open>intFromEnv\<close> replaces it by the default, 10000,
  and the capacity of 10000 is enforced.
\<close>

theorem enforceCap_disabled_by_zero:
  "(cacheMax \<le> 0 \<longrightarrow> jwtCache_enforceCap cacheMax now rng1 rng2 d = d) \<and>
   (Atoi v = Some 0 \<longrightarrow> jwtCache_enforceCap (cacheMax_of_env v) now rng1 rng2 d = d) \<and>
   (Atoi v = Some i \<and> i < 0 \<longrightarrow> cacheMax_of_env v = 10000)"
  by (auto simp: jwtCache_enforceCap_def cacheMax_of_env_def intFromEnv_def Atoi_Nil)

theorem enforceCap_disabled_by_zero_witness:
  "Atoi ''0'' = Some 0 \<and>
   jwtCache_enforceCap (cacheMax_of_env ''0'') (Unix 1700000000 0)
      (keys_in (sample_keys 3)) (keys_in (sample_keys 3)) (sample_cache 3 (Unix 1700000001 0))
     = sample_cache 3 (Unix 1700000001 0) \<and>
   Atoi ''-5'' = Some (- 5) \<and> (- 5 :: int) < 0 \<and> cacheMax_of_env ''-5'' = 10000"
proof -
  have a: "Atoi ''0'' = Some 0" and b: "Atoi ''-5'' = Some (- 5)"
    by (simp_all add: Atoi_def is_digit_def decimal_val_def digit_val_def)
  from enforceCap_disabled_by_zero[of 0 "Unix 1700000000 0" "keys_in (sample_keys 3)"
        "keys_in (sample_keys 3)" "sample_cache 3 (Unix 1700000001 0)" "''0''"] a
  have c: "jwtCache_enforceCap (cacheMax_of_env ''0'') (Unix 1700000000 0)
      (keys_in (sample_keys 3)) (keys_in (sample_keys 3)) (sample_cache 3 (Unix 1700000001 0))
     = sample_cache 3 (Unix 1700000001 0)" by blast
  from enforceCap_disabled_by_zero[of 0 0 undefined undefined Map.empty "''-5''" "- 5"] b
  have d: "cacheMax_of_env ''-5'' = 10000" by simp
  show ?thesis using a b c d by simp
qed

text \<open>
  C2 as the specification states it fails for a negative value: with \<^verbatim>\<open>CACHE_MAX_ENTRIES=-1\<close>
  and 10001 entries that are valid for another hour, \<^verbatim>\<open>enforceCap\<close> changes the cache.
\<close>

theorem negative_capacity_value_is_enforced:
  "jwtCache_enforceCap (cacheMax_of_env ''-1'') (Unix 1700000000 0)
      (keys_in (sample_keys 10001)) (keys_in (sample_keys 10001))
      (sample_cache 10001 (Unix 1700003600 0))
   \<noteq> sample_cache 10001 (Unix 1700003600 0)"
proof
  let ?d = "sample_cache 10001 (Unix 1700003600 0)"
  let ?r = "keys_in (sample_keys 10001)"
  assume eq: "jwtCache_enforceCap (cacheMax_of_env ''-1'') (Unix 1700000000 0) ?r ?r ?d = ?d"
  have "int (card (dom (jwtCache_enforceCap 10000 (Unix 1700000000 0) ?r ?r ?d))) =
          min (int (card (dom ?d))) 10000"
    by (rule enforceCap_count) (simp_all add: sample_range_order)
  then have "int (card (dom ?d)) = min (int (card (dom ?d))) 10000"
    using eq by (simp add: cacheMax_of_minus_one)
  then show False by (simp add: sample_cache_card)
qed

section \<open>The bearer token of a header\<close>

text \<open>
  C7. \<^verbatim>\<open>extractBearer\<close> maps \<^verbatim>\<open>"Bearer   abc.def.ghi  "\<close> to \<^verbatim>\<open>"abc.def.ghi"\<close> and \<^verbatim>\<open>"bearer xyz"\<close> to
  \<^verbatim>\<open>"xyz"\<close>, and both the empty string and \<^verbatim>\<open>"Basic xyz"\<close> to the empty string.
\<close>

theorem extractBearer_examples:
  "extractBearer ''Bearer   abc.def.ghi  '' = ''abc.def.ghi'' \<and>
   extractBearer ''bearer xyz'' = ''xyz'' \<and>
   extractBearer [] = [] \<and>
   extractBearer ''Basic xyz'' = []"
  by code_simp

section \<open>The expiry of a token: numbers and strings\<close>

text \<open>
  C3, as the code has it. For a token of three segments whose middle segment decodes to a
  JSON object that \<^verbatim>\<open>json.Unmarshal\<close> accepts, \<^verbatim>\<open>parseJWTExp\<close> does not succeed when the value of
  \<^verbatim>\<open>exp\<close> is a JSON string, whatever the string: it fails with \<^verbatim>\<open>exp type unsupported\<close>.
\<close>

theorem parseJWTExp_string_exp_unsupported:
  assumes "Split jwt CHR ''.'' = [h, p, sg]" and "DecodeString p = Some payload"
    and "Unmarshal payload = Some claims" and "claims ''exp'' = Some (AnyString t)"
  shows "parseJWTExp jwt = Inl ExpTypeUnsupported"
  using assms by (simp add: parseJWTExp_def)

text \<open>The payload \<^verbatim>\<open>{"exp":"1700000000"}\<close>, through the decoders.\<close>

theorem parseJWTExp_string_exp_unsupported_witness:
  "Split ''h.eyJleHAiOiIxNzAwMDAwMDAwIn0.s'' CHR ''.'' =
     [''h'', ''eyJleHAiOiIxNzAwMDAwMDAwIn0'', ''s''] \<and>
   DecodeString ''eyJleHAiOiIxNzAwMDAwMDAwIn0'' =
     Some (''{'' @ [CHR 0x22] @ ''exp'' @ [CHR 0x22] @ '':'' @ [CHR 0x22] @ ''1700000000'' @
           [CHR 0x22] @ ''}'') \<and>
   Unmarshal (''{'' @ [CHR 0x22] @ ''exp'' @ [CHR 0x22] @ '':'' @ [CHR 0x22] @ ''1700000000'' @
              [CHR 0x22] @ ''}'') = Some [''exp'' \<mapsto> AnyString ''1700000000''] \<and>
   parseJWTExp ''h.eyJleHAiOiIxNzAwMDAwMDAwIn0.s'' = Inl ExpTypeUnsupported"
proof -
  let ?q = "CHR 0x22"
  let ?P1 = "''{'' @ [?q] @ ''exp'' @ [?q] @ '':'' @ [?q] @ ''1700000000'' @ [?q] @ ''}''"
  have s1: "Split ''h.eyJleHAiOiIxNzAwMDAwMDAwIn0.s'' CHR ''.'' =
      [''h'', ''eyJleHAiOiIxNzAwMDAwMDAwIn0'', ''s'']"
    by code_simp
  have d1: "DecodeString ''eyJleHAiOiIxNzAwMDAwMDAwIn0'' = Some ?P1" by code_simp
  have p1: "parse_value (2 * length ?P1 + 2) 0 ?P1 =
      Some (AnyMap [(''exp'', AnyString ''1700000000'')], [])"
    by code_simp
  have u1: "Unmarshal ?P1 = Some [''exp'' \<mapsto> AnyString ''1700000000'']"
    unfolding Unmarshal_def p1 by (simp add: skip_ws_def)
  have e1: "[''exp'' \<mapsto> AnyString ''1700000000''] ''exp'' = Some (AnyString ''1700000000'')"
    by simp
  from parseJWTExp_string_exp_unsupported[OF s1 d1 u1 e1] s1 d1 u1
  show ?thesis by blast
qed

text \<open>
  C3 as the specification states it fails: the token below has three segments, its middle
  segment decodes to \<^verbatim>\<open>{"exp":"1700000000"}\<close>, whose \<^verbatim>\<open>exp\<close> is the string \<^verbatim>\<open>1700000000\<close>, and
  \<^verbatim>\<open>parseJWTExp\<close> reports the unsupported type.
\<close>

theorem parseJWTExp_textual_exp_rejected:
  "length (Split ''h.eyJleHAiOiIxNzAwMDAwMDAwIn0.s'' CHR ''.'') = 3 \<and>
   (case DecodeString (Split ''h.eyJleHAiOiIxNzAwMDAwMDAwIn0.s'' CHR ''.'' ! 1) of
      None \<Rightarrow> None
    | Some payload \<Rightarrow>
        (case Unmarshal payload of None \<Rightarrow> None | Some claims \<Rightarrow> claims ''exp''))
     = Some (AnyString ''1700000000'') \<and>
   parseJWTExp ''h.eyJleHAiOiIxNzAwMDAwMDAwIn0.s'' = Inl ExpTypeUnsupported"
  by code_simp

text \<open>
  A JSON number as \<^verbatim>\<open>exp\<close> has more than one outcome. \<^verbatim>\<open>{"exp":1700000000}\<close> gives the instant
  1700000000 seconds after the epoch. \<^verbatim>\<open>{"exp":1e30}\<close> does not fit the 64-bit integer of the
  conversion, which gives the smallest one. \<^verbatim>\<open>{"exp":9223372036854774784}\<close> wraps around in
  \<^verbatim>\<open>time.Unix\<close>: its instant is before the year 2023.
\<close>

lemma parseJWTExp_number_example:
  "parseJWTExp ''h.eyJleHAiOjE3MDAwMDAwMDB9.s'' = Inr (1700000000 * Second)"
  by code_simp

lemma parseJWTExp_number_beyond_int64:
  "parseJWTExp ''h.eyJleHAiOjFlMzB9.s'' = Inr (Unix (- (2 ^ 63)) 0)"
  by code_simp

lemma parseJWTExp_number_wraps:
  "case parseJWTExp ''h.eyJleHAiOjkyMjMzNzIwMzY4NTQ3NzQ3ODR9.s'' of
     Inl err \<Rightarrow> False
   | Inr ex \<Rightarrow> Before ex (1700000000 * Second)"
  by code_simp

section \<open>The hooks: faults, pass-through, rejections\<close>

lemma accept_Inr:
  "accept obj jwt opaque =
     Inr (ensureSession (ensureMetadata obj
            \<lparr>Metadata := Some ((case Metadata obj of None \<Rightarrow> Map.empty | Some m \<Rightarrow> m)
                (''phantom_jwt'' \<mapsto> jwt, ''token'' \<mapsto> opaque))\<rparr>), None)"
  by (cases "Metadata obj") (simp_all add: accept_def ensureMetadata_def store_map_def)

text \<open>
  \<^verbatim>\<open>phantomAuthCheck\<close> reads the request through the getters, \<^verbatim>\<open>unauthorized\<close> and the two
  \<^verbatim>\<open>ensure\<close> helpers test for nil before they write: the first hook has a result for every
  object, cache and outcome of the network.
\<close>

lemma phantomAuthCheck_total: "\<exists>r. phantomAuthCheck e cStore obj = Inr r"
  by (simp add: phantomAuthCheck_def Let_def accept_Inr split: prod.splits option.splits)

text \<open>
  C4 fails on the code. \<^verbatim>\<open>injectJwtPostKeyAuth\<close> reads \<^verbatim>\<open>obj.Request.SetHeaders\<close> without a test
  of \<^verbatim>\<open>obj.Request\<close>: for an object without a request whose metadata has a \<^verbatim>\<open>phantom_jwt\<close>, the
  hook ends in the panic of a nil pointer and returns no record.
\<close>

theorem injectJwtPostKeyAuth_nil_request_panics:
  "injectJwtPostKeyAuth
     \<lparr>HookName = ''InjectJwtPostKeyAuth'', Request = None, Session = None,
      Metadata = Some [''phantom_jwt'' \<mapsto> ''a.b.c'']\<rparr> = Inl NilPointerDereference"
  by (simp add: injectJwtPostKeyAuth_def index_map_def)

text \<open>
  C8. For a hook name other than \<^verbatim>\<open>PhantomAuthCheck\<close> and \<^verbatim>\<open>InjectJwtPostKeyAuth\<close>, \<^verbatim>\<open>Dispatch\<close>
  returns the object as it was given, with a nil error (and leaves the cache alone).
\<close>

theorem Dispatch_other_hook_passes_through:
  assumes "HookName obj \<noteq> ''PhantomAuthCheck''" and "HookName obj \<noteq> ''InjectJwtPostKeyAuth''"
  shows "Dispatch e cStore obj = Inr ((obj, None), cStore)"
  using assms by (simp add: Dispatch_def)

theorem Dispatch_other_hook_passes_through_witness:
  "HookName (sample_object ''OtherHook'') \<noteq> ''PhantomAuthCheck'' \<and>
   HookName (sample_object ''OtherHook'') \<noteq> ''InjectJwtPostKeyAuth'' \<and>
   Dispatch (sample_env (DoFailed ''timeout'')) (sample_cache 3 0) (sample_object ''OtherHook'') =
     Inr ((sample_object ''OtherHook'', None), sample_cache 3 0)"
proof -
  have a: "HookName (sample_object ''OtherHook'') \<noteq> ''PhantomAuthCheck''"
    and b: "HookName (sample_object ''OtherHook'') \<noteq> ''InjectJwtPostKeyAuth''"
    by (simp_all add: sample_object_def)
  from Dispatch_other_hook_passes_through[OF a b] a b show ?thesis by simp
qed

lemma unauthorized_401: "short_circuit_401 (unauthorized obj msg) msg"
  by (simp add: short_circuit_401_def unauthorized_def Let_def index_map_def)

lemma bearer_sample: "extractBearer ''Bearer OPAQUE1'' = ''OPAQUE1''"
  by code_simp

lemma sample_auth:
  "index_map (GetHeaders (GetRequest (sample_object hook))) ''Authorization'' = ''Bearer OPAQUE1''"
  by (simp add: sample_object_def GetRequest_def GetHeaders_def index_map_def)

lemma sample_lookup:
  "jwtCache_get (env_now_get (sample_env net)) key Map.empty = (([], False), Map.empty)"
  by (simp add: jwtCache_get_def)

text \<open>
  C9. Whatever the object and the reason, \<^verbatim>\<open>unauthorized\<close> gives an override with the code
  401, the header \<^verbatim>\<open>WWW-Authenticate: Bearer error="invalid_token"\<close>, and the reason as error
  and as body; and each rejection of a hook is that record with its reason. The hooks
  reject in four places: no bearer token in the header; a miss of the cache and an error of
  the introspection; a miss and an introspection without a token; no \<^verbatim>\<open>phantom_jwt\<close> in the
  metadata of the second hook. (\<open>opaque\<close>, \<open>hit\<close> and the triple name what the first hook
  computes.)
\<close>

theorem rejections_short_circuit_401:
  assumes op: "extractBearer (index_map (GetHeaders (GetRequest obj)) ''Authorization'') = opaque"
    and lookup:
      "jwtCache_get (env_now_get e) (sha256Hex (env_Sum256 e) opaque) cStore = (hit, cStore1)"
    and intro:
      "introspectForJWTAndExp (env_net e) (env_now_introspect e) opaque = (jwt, ex, err)"
  shows "short_circuit_401 (unauthorized obj msg) msg \<and>
     (opaque = [] \<longrightarrow>
        phantomAuthCheck e cStore obj =
          Inr ((unauthorized obj ''Missing bearer token'', None), cStore)) \<and>
     (opaque \<noteq> [] \<and> \<not> snd hit \<and> err = Some m \<longrightarrow>
        phantomAuthCheck e cStore obj =
          Inr ((unauthorized obj (''Introspection error: '' @ m), None), cStore1)) \<and>
     (opaque \<noteq> [] \<and> \<not> snd hit \<and> err = None \<and> jwt = [] \<longrightarrow>
        phantomAuthCheck e cStore obj =
          Inr ((unauthorized obj ''Token inactive or invalid'', None), cStore1)) \<and>
     (index_map (Metadata obj) ''phantom_jwt'' = [] \<longrightarrow>
        injectJwtPostKeyAuth obj = Inr (unauthorized obj ''JWT missing post-auth'', None))"
proof -
  have s1: "opaque = [] \<longrightarrow>
        phantomAuthCheck e cStore obj =
          Inr ((unauthorized obj ''Missing bearer token'', None), cStore)"
    using op by (simp add: phantomAuthCheck_def)
  have s2: "opaque \<noteq> [] \<and> \<not> snd hit \<and> err = Some m \<longrightarrow>
        phantomAuthCheck e cStore obj =
          Inr ((unauthorized obj (''Introspection error: '' @ m), None), cStore1)"
    using op lookup intro by (simp add: phantomAuthCheck_def)
  have s3: "opaque \<noteq> [] \<and> \<not> snd hit \<and> err = None \<and> jwt = [] \<longrightarrow>
        phantomAuthCheck e cStore obj =
          Inr ((unauthorized obj ''Token inactive or invalid'', None), cStore1)"
    using op lookup intro by (simp add: phantomAuthCheck_def)
  have s4: "index_map (Metadata obj) ''phantom_jwt'' = [] \<longrightarrow>
        injectJwtPostKeyAuth obj = Inr (unauthorized obj ''JWT missing post-auth'', None)"
    by (simp add: injectJwtPostKeyAuth_def index_map_def)
  show ?thesis using unauthorized_401 s1 s2 s3 s4 by blast
qed

text \<open>
  The four rejections: an object without a request; a request whose introspection times
  out; a response that is no token; the second hook on an object without metadata.
\<close>

theorem rejections_short_circuit_401_witness:
  "phantomAuthCheck (sample_env (DoFailed ''timeout'')) Map.empty
      ((sample_object ''PhantomAuthCheck'')\<lparr>Request := None\<rparr>) =
     Inr ((unauthorized ((sample_object ''PhantomAuthCheck'')\<lparr>Request := None\<rparr>)
             ''Missing bearer token'', None), Map.empty) \<and>
   phantomAuthCheck (sample_env (DoFailed ''timeout'')) Map.empty
      (sample_object ''PhantomAuthCheck'') =
     Inr ((unauthorized (sample_object ''PhantomAuthCheck'') ''Introspection error: timeout'', None),
          Map.empty) \<and>
   phantomAuthCheck (sample_env (Response 200 ''inactive'' None)) Map.empty
      (sample_object ''PhantomAuthCheck'') =
     Inr ((unauthorized (sample_object ''PhantomAuthCheck'') ''Token inactive or invalid'', None),
          Map.empty) \<and>
   injectJwtPostKeyAuth (sample_object ''InjectJwtPostKeyAuth'') =
     Inr (unauthorized (sample_object ''InjectJwtPostKeyAuth'') ''JWT missing post-auth'', None) \<and>
   short_circuit_401
     (unauthorized (sample_object ''PhantomAuthCheck'') ''Token inactive or invalid'')
     ''Token inactive or invalid''"
proof -
  let ?o = "sample_object ''PhantomAuthCheck''"
  let ?e = "sample_env (DoFailed ''timeout'')"
  let ?e' = "sample_env (Response 200 ''inactive'' None)"
  have op0: "extractBearer (index_map (GetHeaders (GetRequest (?o\<lparr>Request := None\<rparr>)))
      ''Authorization'') = []"
    by (simp add: GetRequest_def GetHeaders_def index_map_def extractBearer_def)
  have op: "extractBearer (index_map (GetHeaders (GetRequest ?o)) ''Authorization'') = ''OPAQUE1''"
    by (simp add: sample_auth bearer_sample)
  have i1: "introspectForJWTAndExp (env_net ?e) (env_now_introspect ?e) opq =
      ([], zero_Time, Some ''timeout'')" for opq
    by (simp add: introspectForJWTAndExp_def sample_env_def)
  have t: "TrimSpace ''inactive'' = ''inactive''" by code_simp
  have i2: "introspectForJWTAndExp (env_net ?e') (env_now_introspect ?e') opq =
      ([], zero_Time, None)" for opq
    by (simp add: introspectForJWTAndExp_def sample_env_def t)
  have m: "index_map (Metadata (sample_object ''InjectJwtPostKeyAuth'')) ''phantom_jwt'' = []"
    by (simp add: sample_object_def index_map_def)
  note a = rejections_short_circuit_401[OF op0 sample_lookup i1, of "''x''" "''timeout''"]
  note b = rejections_short_circuit_401[OF op sample_lookup i1, of "''x''" "''timeout''"]
  note c = rejections_short_circuit_401[OF op sample_lookup i2,
      of "''Token inactive or invalid''" "''timeout''"]
  note d = rejections_short_circuit_401[OF refl sample_lookup i1,
      of "sample_object ''InjectJwtPostKeyAuth''" "''x''" "''timeout''"]
  show ?thesis using a b c d m by simp
qed

text \<open>
  Those are all the rejections of the first hook: on a hit of the cache, and on a miss
  with a token from the introspection, its result is that of \<open>accept\<close>, which leaves the
  request of the object, and so its overrides, as they are.
\<close>

lemma accept_keeps_request: "accept obj jwt opaque = Inr (obj', err) \<Longrightarrow> Request obj' = Request obj"
  by (auto simp: accept_Inr ensureSession_def ensureMetadata_def Let_def)

lemma phantomAuthCheck_accept_cases:
  assumes "extractBearer (index_map (GetHeaders (GetRequest obj)) ''Authorization'') = opaque"
    and "jwtCache_get (env_now_get e) (sha256Hex (env_Sum256 e) opaque) cStore = (hit, cStore1)"
    and "introspectForJWTAndExp (env_net e) (env_now_introspect e) opaque = (jwt, ex, err)"
    and "opaque \<noteq> []"
  shows "snd hit \<Longrightarrow>
           phantomAuthCheck e cStore obj =
             map_sum id (\<lambda>r. (r, cStore1)) (accept obj (fst hit) opaque)"
    and "\<not> snd hit \<Longrightarrow> err = None \<Longrightarrow> jwt \<noteq> [] \<Longrightarrow>
           phantomAuthCheck e cStore obj =
             map_sum id
               (\<lambda>r. (r, jwtCache_set (env_clockSkew e) (env_now_set e)
                           (sha256Hex (env_Sum256 e) opaque) jwt (Add ex (- env_clockSkew e))
                           cStore1))
               (accept obj jwt opaque)"
  using assms by (simp_all add: phantomAuthCheck_def)

section \<open>The fallback expiry and the cache\<close>

lemma countDots_nonempty: "countDots j = 2 \<Longrightarrow> j \<noteq> []"
  by auto

lemma get_miss: "jwtCache_get now key d = (hit, d1) \<Longrightarrow> \<not> snd hit \<Longrightarrow> d1 key = None"
  by (auto simp: jwtCache_get_def split: option.splits if_splits)

text \<open>
  C10. A request with a bearer token that misses the cache, whose introspection answers
  200 with a body of three segments and whose \<^verbatim>\<open>parseJWTExp\<close> fails, is accepted, and with a
  margin of at least 15 seconds its token does not enter the cache: the expiry is the
  clock reading of the introspection plus 30 seconds, \<^verbatim>\<open>storeUntil\<close> is that minus the margin,
  and \<^verbatim>\<open>set\<close>, which reads the clock no earlier, does not store it. The cache after the hook
  is the cache after the lookup, without an entry for the key.
\<close>

theorem fallback_expiry_never_cached:
  assumes skew: "15 * Second \<le> env_clockSkew e"
    and clock: "env_now_introspect e \<le> env_now_set e"
    and op: "extractBearer (index_map (GetHeaders (GetRequest obj)) ''Authorization'') = opaque"
      "opaque \<noteq> []"
    and lookup:
      "jwtCache_get (env_now_get e) (sha256Hex (env_Sum256 e) opaque) cStore = (hit, cStore1)"
      "\<not> snd hit"
    and net: "env_net e = Response 200 body None" "countDots (TrimSpace body) = 2"
      "parseJWTExp (TrimSpace body) = Inl err"
  shows "jwtCache_set (env_clockSkew e) (env_now_set e) (sha256Hex (env_Sum256 e) opaque)
           (TrimSpace body) (Add (Add (env_now_introspect e) (30 * Second)) (- env_clockSkew e))
           cStore1 = cStore1 \<and>
         cStore1 (sha256Hex (env_Sum256 e) opaque) = None \<and>
         (\<exists>obj'. phantomAuthCheck e cStore obj = Inr ((obj', None), cStore1) \<and>
            index_map (Metadata obj') ''phantom_jwt'' = TrimSpace body \<and>
            Request obj' = Request obj)"
proof -
  let ?key = "sha256Hex (env_Sum256 e) opaque"
  let ?j = "TrimSpace body"
  let ?until = "Add (Add (env_now_introspect e) (30 * Second)) (- env_clockSkew e)"
  have noop: "jwtCache_set (env_clockSkew e) (env_now_set e) ?key ?j ?until cStore1 = cStore1"
    using skew clock by (simp add: jwtCache_set_def Add_def Before_def Second_def)
  have none: "cStore1 ?key = None"
    using lookup by (rule get_miss)
  have j: "?j \<noteq> []" using net(2) by (rule countDots_nonempty)
  have intro: "introspectForJWTAndExp (env_net e) (env_now_introspect e) opaque =
      (?j, Add (env_now_introspect e) (30 * Second), None)"
    using net by (simp add: introspectForJWTAndExp_def)
  have "phantomAuthCheck e cStore obj =
      map_sum id (\<lambda>r. (r, cStore1)) (accept obj ?j opaque)"
    using op lookup intro j noop by (simp add: phantomAuthCheck_def)
  then have "\<exists>obj'. phantomAuthCheck e cStore obj = Inr ((obj', None), cStore1) \<and>
            index_map (Metadata obj') ''phantom_jwt'' = ?j \<and> Request obj' = Request obj"
    by (simp add: accept_Inr ensureSession_def ensureMetadata_def index_map_def Let_def)
  with noop none show ?thesis by blast
qed

text \<open>
  The default margin of 30 seconds, and the body \<^verbatim>\<open>a.b.c\<close>, whose middle segment is not
  base64.
\<close>

theorem fallback_expiry_never_cached_witness:
  "15 * Second \<le> env_clockSkew (sample_env (Response 200 ''a.b.c'' None)) \<and>
   env_clockSkew (sample_env (Response 200 ''a.b.c'' None)) = 30 * Second \<and>
   countDots (TrimSpace ''a.b.c'') = 2 \<and>
   parseJWTExp (TrimSpace ''a.b.c'') = Inl PayloadB64Decode \<and>
   (\<exists>obj'. phantomAuthCheck (sample_env (Response 200 ''a.b.c'' None)) Map.empty
              (sample_object ''PhantomAuthCheck'') = Inr ((obj', None), Map.empty) \<and>
            index_map (Metadata obj') ''phantom_jwt'' = ''a.b.c'' \<and>
            Request obj' = Request (sample_object ''PhantomAuthCheck''))"
proof -
  let ?e = "sample_env (Response 200 ''a.b.c'' None)"
  let ?o = "sample_object ''PhantomAuthCheck''"
  have sk: "env_clockSkew ?e = 30 * Second"
    by (simp add: sample_env_def clockSkew_of_env_def durationFromEnvSeconds_def duration_mul_def
        Second_def)
  then have skew: "15 * Second \<le> env_clockSkew ?e" by (simp add: Second_def)
  have clock: "env_now_introspect ?e \<le> env_now_set ?e" by (simp add: sample_env_def)
  have op: "extractBearer (index_map (GetHeaders (GetRequest ?o)) ''Authorization'') = ''OPAQUE1''"
    by (simp add: sample_auth bearer_sample)
  have ne: "''OPAQUE1'' \<noteq> []" by simp
  have miss: "\<not> snd (([]::string), False)" by simp
  have net: "env_net ?e = Response 200 ''a.b.c'' None" by (simp add: sample_env_def)
  have t: "TrimSpace ''a.b.c'' = ''a.b.c''" by code_simp
  have dots: "countDots (TrimSpace ''a.b.c'') = 2" by (simp add: t)
  have pe: "parseJWTExp (TrimSpace ''a.b.c'') = Inl PayloadB64Decode" unfolding t by code_simp
  from fallback_expiry_never_cached[OF skew clock op ne sample_lookup miss net dots pe]
    sk skew dots pe t
  show ?thesis by simp
qed

end
